theory Spec2Isabelle
  imports Main "HOL-Library.Word"
begin

unbundle bit_operations_syntax

section \<open>Values and errors\<close>

text \<open>
  A \<open>bitarray\<close> is a sequence of bits, a \<open>bytes\<close> object a sequence of octets. A Python
  \<open>str\<close> is a \<open>string\<close> holding its UTF-8 bytes, so \<open>str.encode()\<close> reads the characters
  as octets.
\<close>

type_synonym bitarray = "bool list"
type_synonym byte = "8 word"

text \<open>
  Every exception a modelled function can raise is a value. The first group are the
  repository's own classes, the second Python's built-in ones. \<open>InvalidCiphertext\<close> is
  named by the specification only: no class of that name exists in the sources.
\<close>

datatype error =
    BadRequest | BadAuthentication | BadGateway | ServerError | ParameterError
  | InvalidState | DuplicateUser | UserNotFound
  | InvalidCiphertext
  | ValueError | TypeError | IndexError | AttributeError | NameError | ConnectionError

definition encode :: "string \<Rightarrow> byte list" where
  "encode s = map (\<lambda>c. of_nat (of_char c)) s"

text \<open>\<open>int.from_bytes(b, 'big')\<close>.\<close>

definition int_from_bytes_big :: "byte list \<Rightarrow> nat" where
  "int_from_bytes_big bs = foldl (\<lambda>acc b. 256 * acc + unat b) 0 bs"

text \<open>Cutting a sequence into consecutive pieces of \<open>n\<close> elements (the last may be shorter).\<close>

function chunks :: "nat \<Rightarrow> 'a list \<Rightarrow> 'a list list" where
  "chunks n xs = (if n = 0 \<or> xs = [] then [] else take n xs # chunks n (drop n xs))"
  by pat_completeness auto
termination
  by (relation "measure (\<lambda>(n, xs). length xs)") auto

declare chunks.simps [simp del]

subsection \<open>bitarray.tobytes and bitarray.frombytes\<close>

text \<open>
  The bit arrays are big-endian (the library's default): the first bit of each group of
  eight is the most significant one. \<open>tobytes\<close> fills the last byte with zero bits.
\<close>

definition byte_of_bits :: "bool list \<Rightarrow> byte" where
  "byte_of_bits bs = foldl (\<lambda>acc b. 2 * acc + of_bool b) 0 bs"

definition bits_of_byte :: "byte \<Rightarrow> bool list" where
  "bits_of_byte w = map (bit w) [7, 6, 5, 4, 3, 2, 1, 0]"

definition tobytes :: "bitarray \<Rightarrow> byte list" where
  "tobytes a = map byte_of_bits (chunks 8 (a @ replicate ((8 - length a mod 8) mod 8) False))"

definition frombytes :: "byte list \<Rightarrow> bitarray" where
  "frombytes bs = concat (map bits_of_byte bs)"

section \<open>hashlib.sha256\<close>

text \<open>
  The tokens are SHA-256 digests in hexadecimal. The hash is the library's: in every
  function that computes a token it is the parameter \<open>sha256\<close>, standing for
  \<open>hashlib.sha256(m).hexdigest()\<close>, a function from bytes to strings. Where a closed
  term is evaluated, \<open>hex_of_bytes\<close> is put in its place: it writes the bytes of the
  message themselves in hexadecimal.
\<close>

definition hex_digit :: "nat \<Rightarrow> char" where
  "hex_digit n = ''0123456789abcdef'' ! n"

definition hex_byte :: "byte \<Rightarrow> string" where
  "hex_byte b = [hex_digit (unat b div 16), hex_digit (unat b mod 16)]"

definition hex_of_bytes :: "byte list \<Rightarrow> string" where
  "hex_of_bytes m = concat (map hex_byte m)"

section \<open>Encryption schemes (client/utils/encryption.py)\<close>

subsection \<open>XOREncryption\<close>

text \<open>
  \<^verbatim>\<open>
  def encrypt(self, data, key):
      result = bitarray()
      for bit1, bit2 in zip(data, key):
          result.append(bit1 ^ bit2)
      return result
  \<close>
  \<open>decrypt\<close> has the same body. \<open>zip\<close> stops at the shorter argument.
\<close>

definition XOREncryption_encrypt :: "bitarray \<Rightarrow> bitarray \<Rightarrow> bitarray" where
  "XOREncryption_encrypt data key = map (\<lambda>(bit1, bit2). bit1 \<noteq> bit2) (zip data key)"

definition XOREncryption_decrypt :: "bitarray \<Rightarrow> bitarray \<Rightarrow> bitarray" where
  "XOREncryption_decrypt data key = map (\<lambda>(bit1, bit2). bit1 \<noteq> bit2) (zip data key)"

subsection \<open>DebugEncryption\<close>

definition DebugEncryption_encrypt :: "'a \<Rightarrow> 'k \<Rightarrow> 'a" where
  "DebugEncryption_encrypt data key = data"

definition DebugEncryption_decrypt :: "'a \<Rightarrow> 'k \<Rightarrow> 'a" where
  "DebugEncryption_decrypt data key = data"

subsection \<open>Crypto.Util.Padding\<close>

text \<open>
  \<open>pad\<close> and \<open>unpad\<close> in their default PKCS7 style. \<open>unpad\<close> raises \<open>ValueError\<close> on an
  empty input, on a length that is no multiple of the block size, on a last byte that is
  no padding length, and on padding bytes that differ from it.
\<close>

definition pad :: "byte list \<Rightarrow> nat \<Rightarrow> byte list" where
  "pad data_to_pad block_size =
     (let padding_len = block_size - length data_to_pad mod block_size;
          padding = replicate padding_len (of_nat padding_len)
      in data_to_pad @ padding)"

definition unpad :: "byte list \<Rightarrow> nat \<Rightarrow> error + byte list" where
  "unpad padded_data block_size =
     (let pdata_len = length padded_data in
      if pdata_len = 0 then Inl ValueError
      else if pdata_len mod block_size \<noteq> 0 then Inl ValueError
      else
        let padding_len = unat (last padded_data) in
        if padding_len < 1 \<or> padding_len > min block_size pdata_len then Inl ValueError
        else if drop (pdata_len - padding_len) padded_data
                \<noteq> replicate padding_len (of_nat padding_len) then Inl ValueError
        else Inr (take (pdata_len - padding_len) padded_data))"

subsection \<open>Crypto.Cipher.AES in CBC mode\<close>

text \<open>
  The block cipher itself is the library's: it is a parameter, \<open>E key block\<close> for the
  forward and \<open>D key block\<close> for the inverse direction on one 16-byte block. The CBC
  chaining, the checks of \<open>AES.new\<close> (key of 16, 24 or 32 bytes, IV of 16 bytes) and of
  \<open>cipher.decrypt\<close> (length a multiple of the block size) are written out; each of them
  raises \<open>ValueError\<close>.
\<close>

definition AES_block_size :: nat where
  "AES_block_size = 16"

definition AES_key_size :: "nat list" where
  "AES_key_size = [16, 24, 32]"

definition strxor :: "byte list \<Rightarrow> byte list \<Rightarrow> byte list" where
  "strxor a b = map (\<lambda>(x, y). x XOR y) (zip a b)"

fun cbc_encrypt_blocks ::
  "(byte list \<Rightarrow> byte list) \<Rightarrow> byte list \<Rightarrow> byte list list \<Rightarrow> byte list list" where
  "cbc_encrypt_blocks enc prev [] = []"
| "cbc_encrypt_blocks enc prev (b # bs) =
     (let c = enc (strxor b prev) in c # cbc_encrypt_blocks enc c bs)"

fun cbc_decrypt_blocks ::
  "(byte list \<Rightarrow> byte list) \<Rightarrow> byte list \<Rightarrow> byte list list \<Rightarrow> byte list list" where
  "cbc_decrypt_blocks dec prev [] = []"
| "cbc_decrypt_blocks dec prev (c # cs) = strxor (dec c) prev # cbc_decrypt_blocks dec c cs"

definition CbcMode_encrypt ::
  "(byte list \<Rightarrow> byte list \<Rightarrow> byte list) \<Rightarrow> byte list \<Rightarrow> byte list \<Rightarrow> byte list \<Rightarrow> byte list" where
  "CbcMode_encrypt E key iv plaintext =
     concat (cbc_encrypt_blocks (E key) iv (chunks AES_block_size plaintext))"

definition CbcMode_decrypt ::
  "(byte list \<Rightarrow> byte list \<Rightarrow> byte list) \<Rightarrow> byte list \<Rightarrow> byte list \<Rightarrow> byte list \<Rightarrow> byte list" where
  "CbcMode_decrypt D key iv ciphertext =
     concat (cbc_decrypt_blocks (D key) iv (chunks AES_block_size ciphertext))"

subsection \<open>AESEncryption\<close>

text \<open>
  \<^verbatim>\<open>
  def encrypt(self, data, key):
      data = data.tobytes()
      key = key.tobytes()
      cipher = AES.new(key, AES.MODE_CBC)
      cipheredData = cipher.encrypt(pad(data, AES.block_size))
      result_data = bitarray(); result_data.frombytes(cipheredData)
      result_iv = bitarray();   result_iv.frombytes(cipher.iv)
      return result_iv + result_data
  \<close>
  \<open>AES.new\<close> draws the IV at random; the 16 bytes drawn are the argument \<open>iv\<close>.
\<close>

definition AESEncryption_encrypt ::
  "(byte list \<Rightarrow> byte list \<Rightarrow> byte list) \<Rightarrow> byte list \<Rightarrow> bitarray \<Rightarrow> bitarray \<Rightarrow> error + bitarray" where
  "AESEncryption_encrypt E iv data key =
     (let data = tobytes data;
          key = tobytes key
      in if length key \<notin> set AES_key_size then Inl ValueError
         else
           let cipheredData = CbcMode_encrypt E key iv (pad data AES_block_size);
               result_data = frombytes cipheredData;
               result_iv = frombytes iv
           in Inr (result_iv @ result_data))"

text \<open>
  \<^verbatim>\<open>
  def decrypt(self, data, key):
      key = key.tobytes()
      iv = data[:128] #iv always has 128 bits
      cipheredData = data[128:]
      iv = iv.tobytes()
      cipheredData = cipheredData.tobytes()
      cipher = AES.new(key, AES.MODE_CBC, iv=iv)
      originalData = unpad(cipher.decrypt(cipheredData), AES.block_size)
      result = bitarray(); result.frombytes(originalData)
      return result
  \<close>
  No exception is caught: what the library raises leaves the function.
\<close>

definition AESEncryption_decrypt ::
  "(byte list \<Rightarrow> byte list \<Rightarrow> byte list) \<Rightarrow> bitarray \<Rightarrow> bitarray \<Rightarrow> error + bitarray" where
  "AESEncryption_decrypt D data key =
     (let key = tobytes key;
          iv = take 128 data;
          cipheredData = drop 128 data;
          iv = tobytes iv;
          cipheredData = tobytes cipheredData
      in if length key \<notin> set AES_key_size then Inl ValueError
         else if length iv \<noteq> AES_block_size then Inl ValueError
         else if length cipheredData mod AES_block_size \<noteq> 0 then Inl ValueError
         else
           case unpad (CbcMode_decrypt D key iv cipheredData) AES_block_size of
             Inl e \<Rightarrow> Inl e
           | Inr originalData \<Rightarrow> Inr (frombytes originalData))"

text \<open>
  A block cipher to run the functions on: it adds the key to the block bytewise. It
  stands for the library's AES wherever a closed term is evaluated.
\<close>

definition xor_block_cipher :: "byte list \<Rightarrow> byte list \<Rightarrow> byte list" where
  "xor_block_cipher key block = strxor block key"

subsection \<open>DebugKeyGenerator\<close>

text \<open>
  \<^verbatim>\<open>
  def speficied_keylength(self, length):
      self.key_length = length
      self.key = bitarray([i % 2 for i in range(self.key_length)])
  \<close>
\<close>

definition DebugKeyGenerator_key :: "nat \<Rightarrow> bitarray" where
  "DebugKeyGenerator_key key_length = map (\<lambda>i. i mod 2 = 1) [0..<key_length]"

section \<open>Key generation (frontend/src/middleware/client/namespaces/av_controller.py)\<close>

text \<open>
  \<^verbatim>\<open>
  self.keys = []
  async def gen_keys():
      key_idx = 0
      while True:
          self.key_gen.generate_key(key_length=128)
          self.keys += (key_idx, self.key_gen.get_key().tobytes())
          key_idx += 1
          await asyncio.sleep(1)
  \<close>
  \<open>+=\<close> of a tuple to a list extends the list by the tuple's elements: \<open>self.keys\<close> is a
  flat list that alternates indices and keys. The loop never ends; \<open>gen_keys key_gen n\<close>
  is its state after \<open>n\<close> iterations, where \<open>key_gen i\<close> is the bit array the key
  generator hands out in iteration \<open>i\<close>.
\<close>

datatype key_entry = KeyIndex nat | KeyBytes "byte list"

record gen_keys_state =
  key_idx :: nat
  keys :: "key_entry list"

definition gen_keys_iteration :: "bitarray \<Rightarrow> gen_keys_state \<Rightarrow> gen_keys_state" where
  "gen_keys_iteration key s =
     \<lparr>key_idx = key_idx s + 1,
      keys = keys s @ [KeyIndex (key_idx s), KeyBytes (tobytes key)]\<rparr>"

fun gen_keys :: "(nat \<Rightarrow> bitarray) \<Rightarrow> nat \<Rightarrow> gen_keys_state" where
  "gen_keys key_gen 0 = \<lparr>key_idx = 0, keys = []\<rparr>"
| "gen_keys key_gen (Suc n) = gen_keys_iteration (key_gen n) (gen_keys key_gen n)"

text \<open>The indices held in the key store, in the order they are stored.\<close>

fun stored_indices :: "key_entry list \<Rightarrow> nat list" where
  "stored_indices [] = []"
| "stored_indices (KeyIndex i # es) = i # stored_indices es"
| "stored_indices (KeyBytes b # es) = stored_indices es"

text \<open>The keys held in the key store, in the order they are stored.\<close>

fun stored_keys :: "key_entry list \<Rightarrow> byte list list" where
  "stored_keys [] = []"
| "stored_keys (KeyIndex i # es) = stored_keys es"
| "stored_keys (KeyBytes b # es) = b # stored_keys es"

section \<open>Receiving media frames\<close>

subsection \<open>AudioClientNamespace.on_message (frontend/src/middleware/client/namespaces/audio_namespace.py)\<close>

text \<open>
  \<^verbatim>\<open>
  async def handle_message():
      if user_id == self.client_socket.user_id:
          return
      key_idx = int.from_bytes(msg[:4], 'big')
      key = self.av_controller.keys[key_idx][1]
      data = msg[4:]
      data = self.av_controller.encryption.decrypt(data, key)
      self.stream.write(data, ...)
  \<close>
  Nothing is caught. \<open>keys[key_idx]\<close> raises \<open>IndexError\<close> beyond the end of the list;
  the element is an index or a key (the list is flat), and \<open>[1]\<close> of an integer raises
  \<open>TypeError\<close>, of a key gives its second byte. The cipher is the parameter \<open>decrypt\<close>;
  the consumer is the output stream, modelled by the list of buffers written to it. The
  handler first calls \<open>on_message\<close> of its base class, which is not among the sources and
  is taken to return without effect.
\<close>

record audio_namespace =
  audio_user_id :: string
  audio_keys :: "key_entry list"
  stream_written :: "byte list list"

definition AudioClientNamespace_on_message ::
  "(byte list \<Rightarrow> nat \<Rightarrow> error + byte list) \<Rightarrow> audio_namespace \<Rightarrow> string \<Rightarrow> byte list
     \<Rightarrow> (error + unit) \<times> audio_namespace" where
  "AudioClientNamespace_on_message decrypt s user_id msg =
     (if user_id = audio_user_id s then (Inr (), s)
      else
        let key_idx = int_from_bytes_big (take 4 msg) in
        if key_idx \<ge> length (audio_keys s) then (Inl IndexError, s)
        else
          case audio_keys s ! key_idx of
            KeyIndex i \<Rightarrow> (Inl TypeError, s)
          | KeyBytes b \<Rightarrow>
              if length b \<le> 1 then (Inl IndexError, s)
              else
                let key = unat (b ! 1);
                    data = drop 4 msg
                in case decrypt data key of
                     Inl e \<Rightarrow> (Inl e, s)
                   | Inr data \<Rightarrow> (Inr (), s\<lparr>stream_written := stream_written s @ [data]\<rparr>))"

subsection \<open>VideoClientNamespace.on_message (server/utils/namespaces/video_namespace.py)\<close>

text \<open>
  \<^verbatim>\<open>
  async def handle_message():
      if user_id == self.cls.user_id:
          return
      cur_key_idx, key = self.av.key
      key_idx = int.from_bytes(msg[:4], 'big')
      if (key_idx != cur_key_idx):
          return
      data = msg[4:]
      data = self.av.encryption.decrypt(data, key)
      data = self.output.run(input=data, capture_stdout=True, quiet=True)[0]
      data = np.frombuffer(data, dtype=np.uint8).reshape(self.av.video_shape)
      self.cls.video[user_id] = data
  \<close>
  The only key is the current one, \<open>self.av.key\<close>. Nothing is caught. The cipher is the
  parameter \<open>decrypt\<close>, the video decoding (ffmpeg and the reshape) the parameter
  \<open>decode\<close>; the consumer is the table \<open>video\<close> of the latest frame of each user. The
  call of the base class's \<open>on_message\<close> is taken to return without effect, as above.
\<close>

record ('k, 'f) video_namespace =
  video_user_id :: string
  av_key :: "nat \<times> 'k"
  video :: "string \<rightharpoonup> 'f"

definition VideoClientNamespace_on_message ::
  "(byte list \<Rightarrow> 'k \<Rightarrow> error + byte list) \<Rightarrow> (byte list \<Rightarrow> error + 'f)
     \<Rightarrow> ('k, 'f) video_namespace \<Rightarrow> string \<Rightarrow> byte list
     \<Rightarrow> (error + unit) \<times> ('k, 'f) video_namespace" where
  "VideoClientNamespace_on_message decrypt decode s user_id msg =
     (if user_id = video_user_id s then (Inr (), s)
      else
        let (cur_key_idx, key) = av_key s;
            key_idx = int_from_bytes_big (take 4 msg)
        in if key_idx \<noteq> cur_key_idx then (Inr (), s)
           else
             let data = drop 4 msg in
             case decrypt data key of
               Inl e \<Rightarrow> (Inl e, s)
             | Inr data \<Rightarrow>
                 (case decode data of
                    Inl e \<Rightarrow> (Inl e, s)
                  | Inr frame \<Rightarrow> (Inr (), s\<lparr>video := (video s)(user_id \<mapsto> frame)\<rparr>)))"

section \<open>User registry (server/utils/user_manager.py)\<close>

datatype UserState = IDLE | CONNECTING | CONNECTED

text \<open>
  Modelled from the spec: the classes \<open>Endpoint\<close> and \<open>User\<close> of the server (its modules
  \<open>utils\<close> and \<open>user\<close> are not among the sources). An endpoint is a host, a port and an
  optional route; a user has an id, a session token, an API endpoint, a state and a peer
  id that may be \<open>None\<close>.
\<close>

record Endpoint =
  ip :: string
  port :: nat
  route :: "string option"

record User =
  user_id :: string
  sess_token :: string
  api_endpoint :: Endpoint
  user_state :: UserState
  peer :: "string option"

subsection \<open>DictUserStorage\<close>

text \<open>
  The dictionary \<open>self.users\<close>. A stored value is whatever the caller passes, also
  \<open>None\<close>: the values are of type \<open>User option\<close>.
\<close>

type_synonym DictUserStorage = "string \<rightharpoonup> User option"

definition DictUserStorage_add_user ::
  "string \<Rightarrow> User option \<Rightarrow> DictUserStorage \<Rightarrow> error + DictUserStorage" where
  "DictUserStorage_add_user uid user_info users =
     (if uid \<in> dom users then Inl DuplicateUser else Inr (users(uid \<mapsto> user_info)))"

definition DictUserStorage_get_user :: "string \<Rightarrow> DictUserStorage \<Rightarrow> error + User option" where
  "DictUserStorage_get_user uid users =
     (case users uid of None \<Rightarrow> Inl UserNotFound | Some user_info \<Rightarrow> Inr user_info)"

subsection \<open>UserManager\<close>

text \<open>
  \<^verbatim>\<open>
  def generate_user_id(self):
      return ''.join(choice(ascii_letters + digits) for _ in range(5)).lower()
  \<close>
  The five characters drawn are the argument \<open>choices\<close>.
\<close>

definition char_lower :: "char \<Rightarrow> char" where
  "char_lower c =
     (if (65::nat) \<le> of_char c \<and> of_char c \<le> (90::nat) then char_of (of_char c + (32::nat)) else c)"

definition UserManager_generate_user_id :: "string \<Rightarrow> string" where
  "UserManager_generate_user_id choices = map char_lower choices"

text \<open>
  \<^verbatim>\<open>
  def generate_token(self, user_id):
      hash_object = hashlib.sha256(user_id.encode())
      token = hash_object.hexdigest()
      return token
  \<close>
\<close>

definition UserManager_generate_token :: "(byte list \<Rightarrow> string) \<Rightarrow> string \<Rightarrow> string" where
  "UserManager_generate_token sha256 uid = sha256 (encode uid)"

text \<open>
  \<^verbatim>\<open>
  def add_user(self):
      user_id = self.generate_user_id()
      try:
          self.storage.add_user(user_id, None)
          return user_id
      except DuplicateUser as e:
          raise e
  \<close>
  The method takes no argument besides \<open>self\<close>, stores \<open>None\<close> as the user's record and
  returns the id alone; \<open>generate_token\<close> is not called. Python checks the number of
  positional arguments when the method is called: \<open>args\<close> are the ones the caller
  passes, and any at all raises \<open>TypeError\<close> before the body runs.
\<close>

definition UserManager_add_user ::
  "'a list \<Rightarrow> string \<Rightarrow> DictUserStorage \<Rightarrow> (error + string) \<times> DictUserStorage" where
  "UserManager_add_user args choices storage =
     (if args \<noteq> [] then (Inl TypeError, storage)
      else
        let uid = UserManager_generate_user_id choices in
        case DictUserStorage_add_user uid None storage of
          Inl e \<Rightarrow> (Inl e, storage)
        | Inr storage' \<Rightarrow> (Inr uid, storage'))"

text \<open>
  \<^verbatim>\<open>
  def get_user(self, user_id) -> User:
      try:
          user_info = self.storage.get_user(user_id)
          return User(*user_info)
      except UserNotFound as e:
          raise e
  \<close>
  Unpacking \<open>None\<close>, the record \<open>add_user\<close> stores, raises \<open>TypeError\<close>.
\<close>

definition UserManager_get_user :: "DictUserStorage \<Rightarrow> string \<Rightarrow> error + User option" where
  "UserManager_get_user storage uid =
     (case DictUserStorage_get_user uid storage of
        Inl e \<Rightarrow> Inl e
      | Inr None \<Rightarrow> Inl TypeError
      | Inr (Some u) \<Rightarrow> Inr (Some u))"

text \<open>
  \<^verbatim>\<open>
  def set_user_state(self, user_id, state: UserState, peer=None):
      if (state == UserState.IDLE) ^ (peer == None):
          raise InvalidState(...)
      try:
          user_info = self.storage.get_user(user_id)
          user_info.state = state
          user_info.peer = peer
          self.storage.update_user(user_id, user_info)
      except UserNotFound as e:
          raise e
  \<close>
  The one operation that changes a user's state. Setting an attribute of \<open>None\<close> raises
  \<open>AttributeError\<close>.
\<close>

definition UserManager_set_user_state ::
  "DictUserStorage \<Rightarrow> string \<Rightarrow> UserState \<Rightarrow> string option \<Rightarrow> (error + unit) \<times> DictUserStorage" where
  "UserManager_set_user_state storage uid new_state new_peer =
     (if (new_state = IDLE) \<noteq> (new_peer = None) then (Inl InvalidState, storage)
      else
        case DictUserStorage_get_user uid storage of
          Inl e \<Rightarrow> (Inl e, storage)
        | Inr None \<Rightarrow> (Inl AttributeError, storage)
        | Inr (Some user_info) \<Rightarrow>
            (Inr (), storage(uid \<mapsto> Some (user_info\<lparr>user_state := new_state, peer := new_peer\<rparr>))))"

text \<open>
  The methods of \<open>UserManager\<close> that look a user up by id, by their names: \<open>get_user\<close> is
  the only one. The other attributes of the class are \<open>storage\<close>, \<open>generate_user_id\<close>,
  \<open>generate_token\<close>, \<open>add_user\<close>, \<open>set_user_state\<close> and \<open>remove_user\<close>. Reading an
  attribute the class does not have raises \<open>AttributeError\<close>.
\<close>

definition UserManager_lookup_methods ::
  "(string \<times> (DictUserStorage \<Rightarrow> string \<Rightarrow> error + User option)) list" where
  "UserManager_lookup_methods = [(''get_user'', UserManager_get_user)]"

definition UserManager_lookup_method ::
  "string \<Rightarrow> error + (DictUserStorage \<Rightarrow> string \<Rightarrow> error + User option)" where
  "UserManager_lookup_method name =
     (case map_of UserManager_lookup_methods name of
        None \<Rightarrow> Inl AttributeError
      | Some m \<Rightarrow> Inr m)"

section \<open>Signaling channel: SocketAPI (server/video_chat_server.py)\<close>

text \<open>
  \<^verbatim>\<open>
  @total_ordering
  class ServerState(Enum):
      NEW = 'NEW'
      INITIALIZED = 'INITIALIZED'
      CLOSED = 'CLOSED'
      LIVE = 'LIVE'
      OPEN = 'OPEN'
      def __lt__(self, other):
          arr = list(self.__class__)
          return arr.index(self) < arr.index(other)
  \<close>
  \<open>ServerState_getattr name\<close> is the attribute access \<open>ServerState.name\<close>: a name that
  is no member raises \<open>AttributeError\<close>.
\<close>

datatype ServerState = NEW | INITIALIZED | CLOSED | LIVE | OPEN

fun ServerState_index :: "ServerState \<Rightarrow> nat" where
  "ServerState_index NEW = 0"
| "ServerState_index INITIALIZED = 1"
| "ServerState_index CLOSED = 2"
| "ServerState_index LIVE = 3"
| "ServerState_index OPEN = 4"

definition ServerState_lt :: "ServerState \<Rightarrow> ServerState \<Rightarrow> bool" where
  "ServerState_lt a b = (ServerState_index a < ServerState_index b)"

definition ServerState_ge :: "ServerState \<Rightarrow> ServerState \<Rightarrow> bool" where
  "ServerState_ge a b = (\<not> ServerState_lt a b)"

definition ServerState_members :: "(string \<times> ServerState) list" where
  "ServerState_members =
     [(''NEW'', NEW), (''INITIALIZED'', INITIALIZED), (''CLOSED'', CLOSED), (''LIVE'', LIVE),
      (''OPEN'', OPEN)]"

definition ServerState_getattr :: "string \<Rightarrow> error + ServerState" where
  "ServerState_getattr name =
     (case map_of ServerState_members name of None \<Rightarrow> Inl AttributeError | Some m \<Rightarrow> Inr m)"

text \<open>
  The class attributes of \<open>SocketAPI\<close>. An entry of \<open>users\<close> is the user's record after
  \<open>init\<close> and the session token of the connection after \<open>on_connect\<close>.
\<close>

datatype socket_user = SocketUser User | SocketToken string

record SocketAPI =
  socket_state :: ServerState
  socket_endpoint :: "Endpoint option"
  conn_token :: "string option"
  socket_users :: "string \<rightharpoonup> socket_user"
  socket_instance :: bool

definition SocketAPI_class :: SocketAPI where
  "SocketAPI_class =
     \<lparr>socket_state = NEW, socket_endpoint = None, conn_token = None, socket_users = Map.empty,
      socket_instance = False\<rparr>"

text \<open>
  \<^verbatim>\<open>
  def generate_conn_token(cls, users: Tuple[User, User]):
      return hashlib.sha256(bytes(a ^ b for a, b in
          zip(users[0].id.encode(), users[1].id.encode()))).hexdigest()

  def generate_sess_token(cls, user_id):
      return hashlib.sha256(user_id.encode()).hexdigest()
  \<close>
\<close>

definition SocketAPI_generate_conn_token :: "(byte list \<Rightarrow> string) \<Rightarrow> User \<times> User \<Rightarrow> string" where
  "SocketAPI_generate_conn_token sha256 users =
     sha256
       (map (\<lambda>(a, b). a XOR b) (zip (encode (user_id (fst users))) (encode (user_id (snd users)))))"

definition SocketAPI_generate_sess_token :: "(byte list \<Rightarrow> string) \<Rightarrow> string \<Rightarrow> string" where
  "SocketAPI_generate_sess_token sha256 uid = sha256 (encode uid)"

text \<open>
  \<^verbatim>\<open>
  def verify_connection(cls, auth):
      user_id, conn_token = auth
      if user_id not in cls.users: return False
      if conn_token != cls.conn_token: return False
      return True
  \<close>
\<close>

definition SocketAPI_verify_connection :: "SocketAPI \<Rightarrow> string \<times> string \<Rightarrow> bool" where
  "SocketAPI_verify_connection cls auth =
     (let (uid, token) = auth in
      if uid \<notin> dom (socket_users cls) then False
      else if Some token \<noteq> conn_token cls then False
      else True)"

text \<open>
  \<^verbatim>\<open>
  def init(cls, server, users: Tuple[User, User]):
      if cls.state >= ServerState.LIVE:
          raise ServerError("Cannot reconfigure WebSocket API during runtime.")
      cls.video_chat_server = server
      cls.endpoint = server.websocket_endpoint
      cls.conn_token = cls.generate_conn_token(users)
      cls.state = ServerState.INIT
      for user in users:
          cls.users[user.id] = User(*user)
      cls.instance = cls()
      return cls.instance
  \<close>
  The assignments before \<open>ServerState.INIT\<close> have taken place when that access raises.
\<close>

definition SocketAPI_init ::
  "(byte list \<Rightarrow> string) \<Rightarrow> SocketAPI \<Rightarrow> Endpoint option \<Rightarrow> User \<times> User \<Rightarrow> (error + unit) \<times> SocketAPI" where
  "SocketAPI_init sha256 cls server_websocket_endpoint users =
     (if ServerState_ge (socket_state cls) LIVE then (Inl ServerError, cls)
      else
        let cls1 = cls\<lparr>socket_endpoint := server_websocket_endpoint,
                       conn_token := Some (SocketAPI_generate_conn_token sha256 users)\<rparr>
        in case ServerState_getattr ''INIT'' of
             Inl e \<Rightarrow> (Inl e, cls1)
           | Inr st \<Rightarrow>
               (Inr (),
                cls1\<lparr>socket_state := st,
                     socket_users := (socket_users cls1)
                       (user_id (fst users) \<mapsto> SocketUser (fst users),
                        user_id (snd users) \<mapsto> SocketUser (snd users)),
                     socket_instance := True\<rparr>))"

text \<open>
  \<^verbatim>\<open>
  def on_connect(cls, auth):
      user_id, conn_token = auth
      if cls.state != ServerState.LIVE:
          return False
      if not cls.verify_connection(auth):
          return False
      sess_token = cls.generate_sess_token(user_id)
      cls.users[user_id] = sess_token
      emit('token', sess_token)
  \<close>
  The result is the token emitted to the client, \<open>None\<close> when the connection is refused.
\<close>

definition SocketAPI_on_connect ::
  "(byte list \<Rightarrow> string) \<Rightarrow> SocketAPI \<Rightarrow> string \<times> string \<Rightarrow> string option \<times> SocketAPI" where
  "SocketAPI_on_connect sha256 cls auth =
     (let (uid, token) = auth in
      if socket_state cls \<noteq> LIVE then (None, cls)
      else if \<not> SocketAPI_verify_connection cls auth then (None, cls)
      else
        let sess_token = SocketAPI_generate_sess_token sha256 uid
        in (Some sess_token,
            cls\<lparr>socket_users := (socket_users cls)(uid \<mapsto> SocketToken sess_token)\<rparr>))"

section \<open>Connection broker: VideoChatServer (server/video_chat_server.py)\<close>

record VideoChatServer =
  server_state :: ServerState
  websocket_endpoint :: "Endpoint option"
  server_api_endpoint :: "Endpoint option"
  user_manager :: DictUserStorage
  socket_api_class :: SocketAPI

text \<open>
  \<^verbatim>\<open>
  def get_user_by_id(self, user_id):
      try:
          user_info = self.user_manager.get_user_by_id(user_id)
          return user_info
      except UserNotFound as e:
          raise e
  \<close>
  The method asked of the user manager is \<open>get_user_by_id\<close>, which \<open>UserManager\<close> does
  not have: the \<open>AttributeError\<close> is no \<open>UserNotFound\<close> and leaves the function.
\<close>

definition VideoChatServer_get_user_by_id :: "VideoChatServer \<Rightarrow> string \<Rightarrow> error + User option" where
  "VideoChatServer_get_user_by_id srv uid =
     (case UserManager_lookup_method ''get_user_by_id'' of
        Inl e \<Rightarrow> Inl e
      | Inr get_user_by_id \<Rightarrow> get_user_by_id (user_manager srv) uid)"

text \<open>
  \<^verbatim>\<open>
  def add_user(self, endpoint):
      try:
          user_id, sess_token = self.user_manager.add_user(endpoint)
          return user_id, sess_token
      except DuplicateUser as e:
          raise e
  \<close>
  The value \<open>UserManager.add_user\<close> returns is a string; unpacking a string into two
  names succeeds on a string of two characters only and raises \<open>ValueError\<close> otherwise.
\<close>

definition unpack_pair :: "string \<Rightarrow> error + string \<times> string" where
  "unpack_pair s = (case s of [a, b] \<Rightarrow> Inr ([a], [b]) | _ \<Rightarrow> Inl ValueError)"

definition VideoChatServer_add_user ::
  "VideoChatServer \<Rightarrow> Endpoint \<Rightarrow> string \<Rightarrow> (error + string \<times> string) \<times> VideoChatServer" where
  "VideoChatServer_add_user srv endpoint choices =
     (case UserManager_add_user [endpoint] choices (user_manager srv) of
        (Inl e, storage) \<Rightarrow> (Inl e, srv\<lparr>user_manager := storage\<rparr>)
      | (Inr returned, storage) \<Rightarrow>
          (case unpack_pair returned of
             Inl e \<Rightarrow> (Inl e, srv\<lparr>user_manager := storage\<rparr>)
           | Inr (uid, token) \<Rightarrow> (Inr (uid, token), srv\<lparr>user_manager := storage\<rparr>)))"

text \<open>
  \<^verbatim>\<open>
  def start_websocket(self, users: Tuple[User, User]):
      if not self.websocket_endpoint:
          raise ServerError("Cannot start WebSocket API without defined endpoint.")
      self.websocket_instance = self.socket_api_class.init(self, users)
      self.websocket_instance.start()
  \<close>
  \<open>start\<close> starts the thread that serves the channel and returns.
\<close>

definition VideoChatServer_start_websocket ::
  "(byte list \<Rightarrow> string) \<Rightarrow> VideoChatServer \<Rightarrow> User \<times> User \<Rightarrow> (error + unit) \<times> VideoChatServer" where
  "VideoChatServer_start_websocket sha256 srv users =
     (case websocket_endpoint srv of
        None \<Rightarrow> (Inl ServerError, srv)
      | Some ep \<Rightarrow>
          (case SocketAPI_init sha256 (socket_api_class srv) (websocket_endpoint srv) users of
             (Inl e, cls) \<Rightarrow> (Inl e, srv\<lparr>socket_api_class := cls\<rparr>)
           | (Inr u, cls) \<Rightarrow> (Inr (), srv\<lparr>socket_api_class := cls\<rparr>)))"

text \<open>
  The notification sent to the peer's control endpoint, and what the HTTP call comes to:
  no answer (\<open>requests.post\<close> raises) or a response with a status code. The network is
  the parameter \<open>post\<close>.
\<close>

record peer_notification =
  notified_sess_token :: string
  notified_peer_id :: string
  notified_socket_endpoint :: "Endpoint option"
  notified_conn_token :: "string option"

datatype http_outcome = Unreachable | Status nat

text \<open>
  \<^verbatim>\<open>
  def contact_client(self, user_id, route, json):
      endpoint = self.get_user_by_id(user_id).api_endpoint(route)
      try:
          response = requests.post(str(endpoint), json=json)
      except Exception as e:
          raise e
      return response
  \<close>
\<close>

definition VideoChatServer_contact_client ::
  "(Endpoint \<Rightarrow> peer_notification \<Rightarrow> http_outcome) \<Rightarrow> VideoChatServer \<Rightarrow> string \<Rightarrow> string
     \<Rightarrow> peer_notification \<Rightarrow> error + nat" where
  "VideoChatServer_contact_client post srv uid rte json =
     (case VideoChatServer_get_user_by_id srv uid of
        Inl e \<Rightarrow> Inl e
      | Inr None \<Rightarrow> Inl AttributeError
      | Inr (Some u) \<Rightarrow>
          (case post ((api_endpoint u)\<lparr>route := Some rte\<rparr>) json of
             Unreachable \<Rightarrow> Inl ConnectionError
           | Status status_code \<Rightarrow> Inr status_code))"

text \<open>
  \<^verbatim>\<open>
  def handle_peer_connection(self, user_id: str, peer_id: str):
      if user_id == peer_id:
          raise BadRequest(...)
      try:
          requester = self.get_user_by_id(user_id)
      except UserNotFound:
          raise BadRequest(...)
      try:
          host = self.get_user_by_id(peer_id)
      except UserNotFound:
          raise BadRequest(...)
      if host.state != UserState.IDLE:
          raise InvalidState(...)
      if requester.state != UserState.IDLE:
          raise InvalidState(...)
      self.start_websocket(users=(requester, host))
      try:
          response = self.contact_client(peer_id, '/peer_connection', json={
              'sess_token': host.sess_token, 'peer_id': requester.id,
              'socket_endpoint': tuple(self.websocket_endpoint),
              'conn_token': self.socket_api_class.conn_token})
      except Exception:
          raise BadGateway(...)
      if response.status_code != 200:
          raise BadGateway(...)
      return self.websocket_endpoint, self.socket_api_class.conn_token
  \<close>
  No statement of the function, and none it calls, writes to the user registry.
\<close>

definition VideoChatServer_handle_peer_connection ::
  "(byte list \<Rightarrow> string) \<Rightarrow> (Endpoint \<Rightarrow> peer_notification \<Rightarrow> http_outcome) \<Rightarrow> VideoChatServer \<Rightarrow> string \<Rightarrow> string
     \<Rightarrow> (error + Endpoint option \<times> string option) \<times> VideoChatServer" where
  "VideoChatServer_handle_peer_connection sha256 post srv uid peer_id =
     (if uid = peer_id then (Inl BadRequest, srv)
      else
        case VideoChatServer_get_user_by_id srv uid of
          Inl e \<Rightarrow> (Inl (if e = UserNotFound then BadRequest else e), srv)
        | Inr requester_info \<Rightarrow>
        case VideoChatServer_get_user_by_id srv peer_id of
          Inl e \<Rightarrow> (Inl (if e = UserNotFound then BadRequest else e), srv)
        | Inr host_info \<Rightarrow>
        case host_info of
          None \<Rightarrow> (Inl AttributeError, srv)
        | Some host \<Rightarrow>
        if user_state host \<noteq> IDLE then (Inl InvalidState, srv)
        else
        case requester_info of
          None \<Rightarrow> (Inl AttributeError, srv)
        | Some requester \<Rightarrow>
        if user_state requester \<noteq> IDLE then (Inl InvalidState, srv)
        else
        case VideoChatServer_start_websocket sha256 srv (requester, host) of
          (Inl e, srv1) \<Rightarrow> (Inl e, srv1)
        | (Inr u, srv1) \<Rightarrow>
            (case VideoChatServer_contact_client post srv1 peer_id ''/peer_connection''
                    \<lparr>notified_sess_token = sess_token host,
                     notified_peer_id = user_id requester,
                     notified_socket_endpoint = websocket_endpoint srv1,
                     notified_conn_token = conn_token (socket_api_class srv1)\<rparr> of
               Inl e \<Rightarrow> (Inl BadGateway, srv1)
             | Inr status_code \<Rightarrow>
                 if status_code \<noteq> 200 then (Inl BadGateway, srv1)
                 else (Inr (websocket_endpoint srv1, conn_token (socket_api_class srv1)), srv1)))"

section \<open>Control plane: ServerAPI.create_user (server/video_chat_server.py)\<close>

text \<open>
  The names bound at the top level of the module, by its imports and its definitions.
  A function body that reads any other name (no local and no built-in one) raises
  \<open>NameError\<close>. The module imports \<open>Flask\<close> and \<open>jsonify\<close> from flask, and \<open>requests\<close>;
  it does not import flask's \<open>request\<close>.
\<close>

definition video_chat_server_globals :: "string list" where
  "video_chat_server_globals =
     [''Enum'', ''total_ordering'', ''hashlib'', ''platform'', ''Thread'', ''Tuple'',
      ''Flask'', ''jsonify'', ''SocketIO'', ''emit'', ''send'', ''WSGIServer'', ''psutil'',
      ''generate_flask_namespace'', ''User'', ''BadAuthentication'', ''InvalidParameter'',
      ''ParameterError'', ''ServerError'', ''BadGateway'', ''BadRequest'',
      ''remove_last_period'', ''Endpoint'', ''requests'', ''UserManager'',
      ''UserStorageFactory'', ''UserState'', ''DuplicateUser'', ''UserNotFound'',
      ''UserStorageTypes'', ''InvalidState'', ''logging'', ''logger'', ''get_parameters'',
      ''get_parameters_from_sequence'', ''get_parameters_from_dict'', ''is_type'',
      ''ServerState'', ''APIState'', ''AD_HOC'', ''search_string'', ''prop'', ''ip'',
      ''ServerAPI'', ''SocketAPI'']"

definition module_global :: "string \<Rightarrow> error + unit" where
  "module_global name = (if name \<in> set video_chat_server_globals then Inr () else Inl NameError)"

text \<open>The JSON body of a request, and \<open>get_parameters(data, param)\<close> on it.\<close>

datatype json = JString string | JNumber nat | JArray "json list"

definition get_parameter :: "(string \<rightharpoonup> json) \<Rightarrow> string \<Rightarrow> error + json" where
  "get_parameter data param =
     (case data param of None \<Rightarrow> Inl ParameterError | Some param_val \<Rightarrow> Inr param_val)"

definition Endpoint_of_json :: "json \<Rightarrow> error + Endpoint" where
  "Endpoint_of_json v =
     (case v of
        JArray [JString h, JNumber p] \<Rightarrow> Inr \<lparr>ip = h, port = p, route = None\<rparr>
      | JArray [JString h, JNumber p, JString r] \<Rightarrow> Inr \<lparr>ip = h, port = p, route = Some r\<rparr>
      | _ \<Rightarrow> Inl TypeError)"

text \<open>
  What a handler gives back to Flask: a pair of a JSON body and a status code, or a body
  alone.
  \<^verbatim>\<open>
  def create_user(cls):
      """Create and store a user with unique `user_id` and `sess_token` for
      authentication. Return both."""
      api_endpoint, = get_parameters(request.json, 'api_endpoint')
      user_id, sess_token = cls.video_chat_server.add_user(Endpoint(*api_endpoint))
      return jsonify({'sess_token': sess_token, 'user_id': user_id}), 200
  \<close>
\<close>

datatype flask_return = Response "(string \<times> string) list" nat | Body "(string \<times> string) list"

definition ServerAPI_create_user ::
  "VideoChatServer \<Rightarrow> (string \<rightharpoonup> json) \<Rightarrow> string \<Rightarrow> (error + flask_return) \<times> VideoChatServer" where
  "ServerAPI_create_user srv request_json choices =
     (case module_global ''request'' of
        Inl e \<Rightarrow> (Inl e, srv)
      | Inr u \<Rightarrow>
        case get_parameter request_json ''api_endpoint'' of
          Inl e \<Rightarrow> (Inl e, srv)
        | Inr endpoint_json \<Rightarrow>
        case Endpoint_of_json endpoint_json of
          Inl e \<Rightarrow> (Inl e, srv)
        | Inr endpoint \<Rightarrow>
        case VideoChatServer_add_user srv endpoint choices of
          (Inl e, srv') \<Rightarrow> (Inl e, srv')
        | (Inr (uid, token), srv') \<Rightarrow>
            (Inr (Response [(''sess_token'', token), (''user_id'', uid)] 200), srv'))"

text \<open>
  The decorator \<open>HandleExceptions\<close> turns four of the server's exceptions into error
  replies and lets every other exception pass. In three of the four branches the status
  code stands on a line of its own after the \<open>return\<close>, so the body is returned alone.
\<close>

definition ServerAPI_HandleExceptions :: "error + flask_return \<Rightarrow> error + flask_return" where
  "ServerAPI_HandleExceptions r =
     (case r of
        Inr reply \<Rightarrow> Inr reply
      | Inl e \<Rightarrow>
          if e = BadAuthentication then
            Inr (Body [(''error_code'', ''403''), (''error_message'', ''Forbidden'')])
          else if e = BadRequest then
            Inr (Body [(''error_code'', ''400''), (''error_message'', ''Bad Request'')])
          else if e = ServerError then
            Inr (Response [(''error_code'', ''500''), (''error_message'', ''Interal Server Error'')]
                   500)
          else if e = BadGateway then
            Inr (Body [(''error_code'', ''502''), (''error_message'', ''Bad Gateway'')])
          else Inl e)"

definition create_user_route ::
  "VideoChatServer \<Rightarrow> (string \<rightharpoonup> json) \<Rightarrow> string \<Rightarrow> (error + flask_return) \<times> VideoChatServer" where
  "create_user_route srv request_json choices =
     (let (r, srv') = ServerAPI_create_user srv request_json choices
      in (ServerAPI_HandleExceptions r, srv'))"

section \<open>A registry to run the broker on\<close>

text \<open>
  Two idle users with the ids of the specification's scenario, and a built server whose
  signaling channel has not been started and whose registry holds a record of each
  user. The registration of the sources stores no records (see \<open>registered_pair\<close>
  below); this registry shows what the broker does where they exist.
\<close>

definition user_ab3f9 :: User where
  "user_ab3f9 =
     \<lparr>user_id = ''ab3f9'', sess_token = UserManager_generate_token hex_of_bytes ''ab3f9'',
      api_endpoint = \<lparr>ip = ''10.0.0.1'', port = 4000, route = None\<rparr>,
      user_state = IDLE, peer = None\<rparr>"

definition user_k0z12 :: User where
  "user_k0z12 =
     \<lparr>user_id = ''k0z12'', sess_token = UserManager_generate_token hex_of_bytes ''k0z12'',
      api_endpoint = \<lparr>ip = ''10.0.0.2'', port = 4000, route = None\<rparr>,
      user_state = IDLE, peer = None\<rparr>"

definition two_idle_users :: VideoChatServer where
  "two_idle_users =
     \<lparr>server_state = INITIALIZED,
      websocket_endpoint = Some \<lparr>ip = ''10.0.0.9'', port = 3000, route = None\<rparr>,
      server_api_endpoint = Some \<lparr>ip = ''10.0.0.9'', port = 5000, route = None\<rparr>,
      user_manager = [''ab3f9'' \<mapsto> Some user_ab3f9, ''k0z12'' \<mapsto> Some user_k0z12],
      socket_api_class = SocketAPI_class\<rparr>"

definition empty_registry :: VideoChatServer where
  "empty_registry = two_idle_users\<lparr>user_manager := Map.empty\<rparr>"

text \<open>
  The registry as the code builds it: the server after two calls of
  \<open>UserManager.add_user\<close> on the empty registry, the ids drawn being \<open>ab3f9\<close> and \<open>k0z12\<close>.
\<close>

definition registered_pair :: VideoChatServer where
  "registered_pair =
     empty_registry\<lparr>user_manager :=
       snd (UserManager_add_user ([] :: Endpoint list) ''k0z12''
              (snd (UserManager_add_user ([] :: Endpoint list) ''ab3f9'' Map.empty)))\<rparr>"

text \<open>The peer's control endpoint accepting, refusing and not answering.\<close>

definition peer_accepts :: "Endpoint \<Rightarrow> peer_notification \<Rightarrow> http_outcome" where
  "peer_accepts endpoint json = Status 200"

definition peer_refuses :: "Endpoint \<Rightarrow> peer_notification \<Rightarrow> http_outcome" where
  "peer_refuses endpoint json = Status 403"

definition peer_unreachable :: "Endpoint \<Rightarrow> peer_notification \<Rightarrow> http_outcome" where
  "peer_unreachable endpoint json = Unreachable"

section \<open>Ciphers and key generators to run the media path on\<close>

text \<open>
  \<open>AVController\<close> creates the DEBUG key generator and asks it for a key of 128 bits in
  every iteration of \<open>gen_keys\<close>.
\<close>

definition AVController_key_gen :: "nat \<Rightarrow> bitarray" where
  "AVController_key_gen i = DebugKeyGenerator_key 128"

text \<open>
  The handlers call \<open>encryption.decrypt(data, key)\<close> on the bytes of the frame. Two
  schemes at that interface: the passthrough scheme, and the AES scheme on the bits of
  frame and key.
\<close>

definition debug_scheme_decrypt :: "byte list \<Rightarrow> 'k \<Rightarrow> error + byte list" where
  "debug_scheme_decrypt data key = Inr (DebugEncryption_decrypt data key)"

definition aes_scheme_decrypt :: "byte list \<Rightarrow> byte list \<Rightarrow> error + byte list" where
  "aes_scheme_decrypt data key =
     (case AESEncryption_decrypt xor_block_cipher (frombytes data) (frombytes key) of
        Inl e \<Rightarrow> Inl e
      | Inr plain \<Rightarrow> Inr (tobytes plain))"

definition raw_frame :: "byte list \<Rightarrow> error + byte list" where
  "raw_frame data = Inr data"

text \<open>
  The audio handler takes one byte of a stored key for the key; the AES scheme keyed
  with it.
\<close>

definition aes_scheme_decrypt_byte :: "byte list \<Rightarrow> nat \<Rightarrow> error + byte list" where
  "aes_scheme_decrypt_byte data key = aes_scheme_decrypt data [of_nat key]"

text \<open>
  The receiving side of user \<open>ab3f9\<close>: the audio namespace after two iterations of the key
  generation, the video namespace while the key of index 3 is the current one.
\<close>

definition receiving_audio :: audio_namespace where
  "receiving_audio =
     \<lparr>audio_user_id = ''ab3f9'', audio_keys = keys (gen_keys AVController_key_gen 2),
      stream_written = []\<rparr>"

definition receiving_video :: "(byte list, byte list) video_namespace" where
  "receiving_video =
     \<lparr>video_user_id = ''ab3f9'', av_key = (3, tobytes (DebugKeyGenerator_key 128)),
      video = Map.empty\<rparr>"

text \<open>
  The signaling channel of the two users once it is served (state \<open>LIVE\<close>), holding the
  connection token computed for them.
\<close>

definition live_channel :: SocketAPI where
  "live_channel =
     \<lparr>socket_state = LIVE,
      socket_endpoint = Some \<lparr>ip = ''10.0.0.9'', port = 3000, route = None\<rparr>,
      conn_token = Some (SocketAPI_generate_conn_token hex_of_bytes (user_ab3f9, user_k0z12)),
      socket_users = [''ab3f9'' \<mapsto> SocketUser user_ab3f9, ''k0z12'' \<mapsto> SocketUser user_k0z12],
      socket_instance = True\<rparr>"

section \<open>Properties\<close>

subsection \<open>Bits and bytes\<close>

lemma bits_of_byte_of_bits:
  "bits_of_byte (byte_of_bits [b7, b6, b5, b4, b3, b2, b1, b0]) = [b7, b6, b5, b4, b3, b2, b1, b0]"
  by (cases b7; cases b6; cases b5; cases b4; cases b3; cases b2; cases b1; cases b0;
      simp add: bits_of_byte_def byte_of_bits_def)

lemma bits_of_byte_of_bits_len: "length c = 8 \<Longrightarrow> bits_of_byte (byte_of_bits c) = c"
proof -
  assume "length c = 8"
  then obtain b7 b6 b5 b4 b3 b2 b1 b0 where "c = [b7, b6, b5, b4, b3, b2, b1, b0]"
    by (auto simp: length_Suc_conv eval_nat_numeral)
  then show ?thesis by (simp only: bits_of_byte_of_bits)
qed

lemma bits_of_byte_inj: "bits_of_byte v = bits_of_byte w \<Longrightarrow> v = w"
proof (rule bit_word_eqI)
  fix n
  assume eq: "bits_of_byte v = bits_of_byte w" and n: "n < LENGTH(8)"
  from n have "n = 0 \<or> n = 1 \<or> n = 2 \<or> n = 3 \<or> n = 4 \<or> n = 5 \<or> n = 6 \<or> n = 7"
    by simp arith
  with eq show "bit v n = bit w n"
    by (auto simp: bits_of_byte_def)
qed

lemma byte_of_bits_of_byte: "byte_of_bits (bits_of_byte w) = w"
proof (rule bits_of_byte_inj)
  show "bits_of_byte (byte_of_bits (bits_of_byte w)) = bits_of_byte w"
    unfolding bits_of_byte_def [of w] list.map by (rule bits_of_byte_of_bits)
qed

lemma length_bits_of_byte [simp]: "length (bits_of_byte w) = 8"
  by (simp add: bits_of_byte_def)

lemma length_frombytes [simp]: "length (frombytes bs) = 8 * length bs"
  by (induction bs) (simp_all add: frombytes_def)

lemma chunks_Nil [simp]: "chunks n [] = []"
  by (simp add: chunks.simps)

lemma chunks_append: "0 < n \<Longrightarrow> length xs = n \<Longrightarrow> chunks n (xs @ ys) = xs # chunks n ys"
  by (subst chunks.simps) auto

lemma concat_chunks: "concat (chunks n xs) = (if n = 0 then [] else xs)"
  by (induction n xs rule: chunks.induct) (subst chunks.simps, auto)

lemma chunks_all_length:
  "0 < n \<Longrightarrow> length xs mod n = 0 \<Longrightarrow> list_all (\<lambda>c. length c = n) (chunks n xs)"
proof (induction n xs rule: chunks.induct)
  case (1 n xs)
  show ?case
  proof (cases "xs = []")
    case True
    then show ?thesis by simp
  next
    case False
    with "1.prems" have len: "n \<le> length xs"
      by (cases "length xs < n") auto
    with "1.prems" have "length (drop n xs) mod n = 0"
      by (simp add: le_mod_geq [symmetric])
    with "1.IH" "1.prems" False have "list_all (\<lambda>c. length c = n) (chunks n (drop n xs))"
      by simp
    with False "1.prems" len show ?thesis
      by (subst chunks.simps) simp
  qed
qed

lemma chunks_concat:
  "0 < n \<Longrightarrow> list_all (\<lambda>b. length b = n) bs \<Longrightarrow> chunks n (concat bs) = bs"
  by (induction bs) (simp_all add: chunks_append)

lemma length_concat_blocks:
  "list_all (\<lambda>c. length c = n) bs \<Longrightarrow> length (concat bs) = n * length bs"
  by (induction bs) simp_all

lemma tobytes_Nil [simp]: "tobytes [] = []"
  by (simp add: tobytes_def)

lemma tobytes_frombytes [simp]: "tobytes (frombytes bs) = bs"
proof -
  have "map byte_of_bits (chunks 8 (frombytes bs)) = bs"
    by (induction bs) (simp_all add: frombytes_def chunks_append byte_of_bits_of_byte)
  then show ?thesis by (simp add: tobytes_def)
qed

lemma frombytes_tobytes: "length a mod 8 = 0 \<Longrightarrow> frombytes (tobytes a) = a"
proof -
  assume len: "length a mod 8 = 0"
  have "list_all (\<lambda>c. length c = 8) (chunks 8 a)"
    using len by (simp add: chunks_all_length)
  then have "concat (map bits_of_byte (map byte_of_bits (chunks 8 a))) = concat (chunks 8 a)"
    by (induction "chunks 8 a") (simp_all add: bits_of_byte_of_bits_len list_all_iff cong: map_cong)
  with len show ?thesis by (simp add: tobytes_def frombytes_def concat_chunks)
qed

lemma length_tobytes: "length a mod 8 = 0 \<Longrightarrow> length (tobytes a) = length a div 8"
proof -
  assume "length a mod 8 = 0"
  then have "length (frombytes (tobytes a)) = length a" by (simp add: frombytes_tobytes)
  then show ?thesis by simp
qed

subsection \<open>Padding and chaining\<close>

lemma unpad_pad: "unpad (pad d 16) 16 = Inr d"
proof -
  define n where "n = 16 - length d mod 16"
  have n: "1 \<le> n" "n \<le> 16" by (simp_all add: n_def)
  have len: "(length d + n) mod 16 = 0" unfolding n_def by presburger
  have un: "unat (of_nat n :: byte) = n" using n by (simp add: unat_of_nat)
  have p: "pad d 16 = d @ replicate n (of_nat n)" by (simp add: pad_def n_def Let_def)
  show ?thesis using n len un by (simp add: p unpad_def Let_def)
qed

lemma length_pad: "length (pad d 16) mod 16 = 0"
  unfolding pad_def Let_def by simp presburger

lemma unpad_error: "unpad x n = Inl e \<Longrightarrow> e = ValueError"
  by (auto simp: unpad_def Let_def split: if_splits)

lemma strxor_twice: "length b \<le> length prev \<Longrightarrow> strxor (strxor b prev) prev = b"
proof (induction b arbitrary: prev)
  case Nil
  show ?case by (simp add: strxor_def)
next
  case (Cons x xs)
  then obtain y ys where "prev = y # ys" by (cases prev) auto
  with Cons show ?case by (simp add: strxor_def xor.assoc)
qed

lemma length_strxor [simp]: "length (strxor a b) = min (length a) (length b)"
  by (simp add: strxor_def)

lemma cbc_blocks_round_trip:
  assumes "\<And>b. length b = 16 \<Longrightarrow> length (enc b) = 16 \<and> dec (enc b) = b"
  shows "length prev = 16 \<Longrightarrow> list_all (\<lambda>b. length b = 16) bs \<Longrightarrow>
         cbc_decrypt_blocks dec prev (cbc_encrypt_blocks enc prev bs) = bs
         \<and> list_all (\<lambda>c. length c = 16) (cbc_encrypt_blocks enc prev bs)"
proof (induction bs arbitrary: prev)
  case Nil
  show ?case by simp
next
  case (Cons b bs)
  from Cons.prems have b: "length b = 16" and bs: "list_all (\<lambda>b. length b = 16) bs" by simp_all
  from b Cons.prems(1) have x: "length (strxor b prev) = 16" by simp
  from assms [OF x] have c: "length (enc (strxor b prev)) = 16"
    and d: "dec (enc (strxor b prev)) = strxor b prev" by simp_all
  from Cons.IH [OF c bs] b Cons.prems(1) c d show ?case
    by (simp add: Let_def strxor_twice)
qed

lemma xor_block_cipher_inverse:
  "length k \<in> set AES_key_size \<Longrightarrow> length b = AES_block_size \<Longrightarrow>
   length (xor_block_cipher k b) = AES_block_size
   \<and> xor_block_cipher k (xor_block_cipher k b) = b"
  by (auto simp: xor_block_cipher_def AES_key_size_def AES_block_size_def strxor_twice)

subsection \<open>AES round trip\<close>

text \<open>
  C7. For every byte payload \<open>p\<close> and every key \<open>k\<close> of 128, 192 or 256 bits, decrypting
  the encryption of \<open>p\<close> under \<open>k\<close> gives \<open>p\<close> back; two encryptions of the same payload
  under the same key whose IVs differ give different ciphertexts, and both decrypt
  to \<open>p\<close>. The block cipher is any pair of functions inverse to each other on 16-byte
  blocks, as AES is; the IVs are the 16 bytes the library draws in each call.
\<close>

theorem AES_round_trip:
  assumes cipher: "\<And>key b. length key \<in> set AES_key_size \<Longrightarrow> length b = AES_block_size \<Longrightarrow>
                     length (E key b) = AES_block_size \<and> D key (E key b) = b"
    and payload: "length p mod 8 = 0"
    and key: "length k \<in> {128, 192, 256}"
    and iv: "length iv1 = 16" "length iv2 = 16" "iv1 \<noteq> iv2"
  shows "\<exists>c1 c2. AESEncryption_encrypt E iv1 p k = Inr c1
           \<and> AESEncryption_encrypt E iv2 p k = Inr c2
           \<and> c1 \<noteq> c2
           \<and> AESEncryption_decrypt D c1 k = Inr p
           \<and> AESEncryption_decrypt D c2 k = Inr p"
proof -
  from key have k8: "length k mod 8 = 0" by auto
  with key have kb: "length (tobytes k) \<in> set AES_key_size"
    by (auto simp: length_tobytes AES_key_size_def)
  define enc where "enc = E (tobytes k)"
  define dec where "dec = D (tobytes k)"
  have ed: "\<And>b. length b = 16 \<Longrightarrow> length (enc b) = 16 \<and> dec (enc b) = b"
    using cipher [OF kb] by (simp add: enc_def dec_def AES_block_size_def)
  define blocks where "blocks = chunks 16 (pad (tobytes p) 16)"
  have blocks: "list_all (\<lambda>b. length b = 16) blocks"
    unfolding blocks_def by (rule chunks_all_length) (simp_all add: length_pad)
  have cat: "concat blocks = pad (tobytes p) 16"
    by (simp add: blocks_def concat_chunks)
  have rt: "AESEncryption_decrypt D
              (frombytes iv @ frombytes (concat (cbc_encrypt_blocks enc iv blocks))) k = Inr p"
    if "length iv = 16" for iv
  proof -
    from cbc_blocks_round_trip [of enc dec, OF ed that blocks]
    have d: "cbc_decrypt_blocks dec iv (cbc_encrypt_blocks enc iv blocks) = blocks"
      and l: "list_all (\<lambda>c. length c = 16) (cbc_encrypt_blocks enc iv blocks)" by simp_all
    from l have ch: "chunks 16 (concat (cbc_encrypt_blocks enc iv blocks))
                       = cbc_encrypt_blocks enc iv blocks"
      by (simp add: chunks_concat)
    from l have len: "length (concat (cbc_encrypt_blocks enc iv blocks)) mod 16 = 0"
      by (simp add: length_concat_blocks)
    show ?thesis
      using that kb len payload
      by (simp add: AESEncryption_decrypt_def CbcMode_decrypt_def AES_block_size_def ch d cat
          unpad_pad frombytes_tobytes dec_def [symmetric])
  qed
  have e: "AESEncryption_encrypt E iv p k
             = Inr (frombytes iv @ frombytes (concat (cbc_encrypt_blocks enc iv blocks)))" for iv
    using kb
    by (simp add: AESEncryption_encrypt_def CbcMode_encrypt_def AES_block_size_def enc_def
        blocks_def)
  have inj: "frombytes iv1 \<noteq> frombytes iv2"
    using iv(3) by (metis tobytes_frombytes)
  have ne: "frombytes iv1 @ x \<noteq> frombytes iv2 @ y" for x y
    using inj iv by (simp add: append_eq_append_conv)
  show ?thesis
    using e rt [OF iv(1)] rt [OF iv(2)] ne by simp
qed

theorem AES_round_trip_witness:
  "length (frombytes (encode ''frame'')) mod 8 = 0
   \<and> length (DebugKeyGenerator_key 128) \<in> {128, 192, 256}
   \<and> length (replicate 16 (0::byte)) = 16 \<and> length (replicate 16 (1::byte)) = 16
   \<and> replicate 16 (0::byte) \<noteq> replicate 16 1
   \<and> (\<exists>c1 c2.
        AESEncryption_encrypt xor_block_cipher (replicate 16 0) (frombytes (encode ''frame''))
          (DebugKeyGenerator_key 128) = Inr c1
        \<and> AESEncryption_encrypt xor_block_cipher (replicate 16 1) (frombytes (encode ''frame''))
            (DebugKeyGenerator_key 128) = Inr c2
        \<and> c1 \<noteq> c2
        \<and> AESEncryption_decrypt xor_block_cipher c1 (DebugKeyGenerator_key 128)
            = Inr (frombytes (encode ''frame''))
        \<and> AESEncryption_decrypt xor_block_cipher c2 (DebugKeyGenerator_key 128)
            = Inr (frombytes (encode ''frame'')))"
proof -
  have p: "length (frombytes (encode ''frame'')) mod 8 = 0" by simp
  have k: "length (DebugKeyGenerator_key 128) \<in> {128, 192, 256}"
    by (simp add: DebugKeyGenerator_key_def)
  have iv: "length (replicate 16 (0::byte)) = 16" "length (replicate 16 (1::byte)) = 16"
    "replicate 16 (0::byte) \<noteq> replicate 16 1"
    by (simp_all add: eval_nat_numeral)
  from AES_round_trip [of xor_block_cipher xor_block_cipher, OF xor_block_cipher_inverse p k iv]
  show ?thesis using p k iv by blast
qed

subsection \<open>AES decryption failures\<close>

lemma unpad_Nil: "unpad [] n = Inl ValueError"
  by (simp add: unpad_def)

lemma AESEncryption_decrypt_error:
  "AESEncryption_decrypt D data key = Inl e \<Longrightarrow> e = ValueError"
  by (auto simp: AESEncryption_decrypt_def Let_def split: if_splits sum.splits dest: unpad_error)

text \<open>
  C8, as amended. For every input shorter than 128 bits, and for every input whose padding
  removal fails after block decryption, \<open>AESEncryption.decrypt\<close> fails, and the
  exception is the library's \<open>ValueError\<close>, which the function lets pass: every
  exception it raises is a \<open>ValueError\<close>, none an \<open>InvalidCiphertext\<close>.
\<close>

theorem AES_decrypt_raises_ValueError:
  "(length data < 128 \<longrightarrow> AESEncryption_decrypt D data key = Inl ValueError)
   \<and> (unpad (CbcMode_decrypt D (tobytes key) (tobytes (take 128 data)) (tobytes (drop 128 data)))
         AES_block_size = Inl e
        \<longrightarrow> AESEncryption_decrypt D data key = Inl ValueError)
   \<and> (AESEncryption_decrypt D data key = Inl e' \<longrightarrow> e' = ValueError)"
proof (intro conjI impI)
  assume "length data < 128"
  then show "AESEncryption_decrypt D data key = Inl ValueError"
    by (simp add: AESEncryption_decrypt_def Let_def CbcMode_decrypt_def chunks.simps unpad_Nil)
next
  assume u: "unpad (CbcMode_decrypt D (tobytes key) (tobytes (take 128 data))
               (tobytes (drop 128 data))) AES_block_size = Inl e"
  then have "e = ValueError" by (rule unpad_error)
  with u show "AESEncryption_decrypt D data key = Inl ValueError"
    by (simp add: AESEncryption_decrypt_def Let_def)
next
  assume "AESEncryption_decrypt D data key = Inl e'"
  then show "e' = ValueError" by (rule AESEncryption_decrypt_error)
qed

lemma corrupt_padding:
  "unpad (CbcMode_decrypt xor_block_cipher (tobytes (DebugKeyGenerator_key 128))
            (tobytes (take 128 (replicate 256 False))) (tobytes (drop 128 (replicate 256 False))))
     AES_block_size = Inl ValueError"
  by code_simp

theorem AES_decrypt_raises_ValueError_witness:
  "length (replicate 100 False) < 128
   \<and> AESEncryption_decrypt xor_block_cipher (replicate 100 False) (DebugKeyGenerator_key 128)
       = Inl ValueError
   \<and> unpad (CbcMode_decrypt xor_block_cipher (tobytes (DebugKeyGenerator_key 128))
              (tobytes (take 128 (replicate 256 False))) (tobytes (drop 128 (replicate 256 False))))
        AES_block_size = Inl ValueError
   \<and> AESEncryption_decrypt xor_block_cipher (replicate 256 False) (DebugKeyGenerator_key 128)
       = Inl ValueError"
  using AES_decrypt_raises_ValueError
          [of "replicate 100 False" xor_block_cipher "DebugKeyGenerator_key 128"]
        AES_decrypt_raises_ValueError
          [of "replicate 256 False" xor_block_cipher "DebugKeyGenerator_key 128" ValueError]
        corrupt_padding
  by simp

text \<open>
  The claim C8 as stated fails on the empty input: the error is \<open>ValueError\<close>.
\<close>

theorem AES_decrypt_InvalidCiphertext_counterexample:
  "length ([] :: bitarray) < 128
   \<and> AESEncryption_decrypt xor_block_cipher [] (DebugKeyGenerator_key 128) = Inl ValueError
   \<and> AESEncryption_decrypt xor_block_cipher [] (DebugKeyGenerator_key 128) \<noteq> Inl InvalidCiphertext"
  by (simp add: AESEncryption_decrypt_def Let_def CbcMode_decrypt_def chunks.simps unpad_Nil)

subsection \<open>Key generation\<close>

lemma stored_indices_append [simp]:
  "stored_indices (xs @ ys) = stored_indices xs @ stored_indices ys"
  by (induction xs rule: stored_indices.induct) simp_all

lemma gen_keys_keys:
  "keys (gen_keys key_gen n)
     = concat (map (\<lambda>i. [KeyIndex i, KeyBytes (tobytes (key_gen i))]) [0..<n])
   \<and> key_idx (gen_keys key_gen n) = n"
  by (induction n) (simp_all add: gen_keys_iteration_def)

lemma stored_indices_pairs:
  "stored_indices (concat (map (\<lambda>i. [KeyIndex i, KeyBytes (f i)]) is)) = is"
  by (induction "is") simp_all

lemma stored_keys_append [simp]:
  "stored_keys (xs @ ys) = stored_keys xs @ stored_keys ys"
  by (induction xs rule: stored_keys.induct) simp_all

lemma stored_keys_pairs:
  "stored_keys (concat (map (\<lambda>i. [KeyIndex i, KeyBytes (f i)]) is)) = map f is"
  by (induction "is") simp_all

text \<open>
  C6, as amended. After any number \<open>n\<close> of iterations of the key-generation loop the
  indices handed out are \<open>0, 1, ..., n - 1\<close>, consecutive from 0, strictly increasing and
  never reused, and the key store holds the index and the key of every iteration so far,
  in the order of their generation: nothing is ever evicted, and what is stored stays
  stored in all later iterations.
\<close>

theorem gen_keys_indices_no_eviction:
  "key_idx (gen_keys key_gen n) = n
   \<and> stored_indices (keys (gen_keys key_gen n)) = [0..<n]
   \<and> stored_keys (keys (gen_keys key_gen n)) = map (\<lambda>i. tobytes (key_gen i)) [0..<n]
   \<and> take n (stored_indices (keys (gen_keys key_gen (n + m))))
       = stored_indices (keys (gen_keys key_gen n))
   \<and> take n (stored_keys (keys (gen_keys key_gen (n + m))))
       = stored_keys (keys (gen_keys key_gen n))"
proof -
  have k: "keys (gen_keys key_gen j)
             = concat (map (\<lambda>i. [KeyIndex i, KeyBytes (tobytes (key_gen i))]) [0..<j])" for j
    using gen_keys_keys by blast
  have i: "stored_indices (keys (gen_keys key_gen j)) = [0..<j]" for j
    by (simp only: k stored_indices_pairs)
  have b: "stored_keys (keys (gen_keys key_gen j)) = map (\<lambda>i. tobytes (key_gen i)) [0..<j]" for j
    by (simp only: k stored_keys_pairs)
  have t: "take n [0..<n + m] = [0..<n]"
    using take_upt [of 0 n "n + m"] by simp
  have idx: "key_idx (gen_keys key_gen n) = n"
    using gen_keys_keys by blast
  have ti: "take n (stored_indices (keys (gen_keys key_gen (n + m))))
              = stored_indices (keys (gen_keys key_gen n))"
    by (simp only: i t)
  have tk: "take n (stored_keys (keys (gen_keys key_gen (n + m))))
              = stored_keys (keys (gen_keys key_gen n))"
    by (simp only: b take_map t)
  from idx i [of n] b [of n] ti tk show ?thesis by blast
qed

lemma upt5: "[0..<5] = [0, 1, 2, 3, 4::nat]"
  by code_simp

text \<open>
  The claim C6 as stated fails for a window of four keys: after five iterations the store
  holds five indices, the oldest among them.
\<close>

theorem gen_keys_window_counterexample:
  "stored_indices (keys (gen_keys AVController_key_gen 5)) = [0, 1, 2, 3, 4]
   \<and> \<not> length (stored_indices (keys (gen_keys AVController_key_gen 5))) \<le> 4"
proof -
  have "keys (gen_keys AVController_key_gen 5)
          = concat (map (\<lambda>i. [KeyIndex i, KeyBytes (tobytes (AVController_key_gen i))]) [0..<5])"
    using gen_keys_keys by blast
  then have "stored_indices (keys (gen_keys AVController_key_gen 5)) = [0..<5]"
    by (simp only: stored_indices_pairs)
  then show ?thesis by (simp only: upt5) simp
qed

subsection \<open>Receiving media frames\<close>

lemma audio_error_keeps_stream:
  "fst (AudioClientNamespace_on_message decrypt a uid msg) = Inl e
   \<Longrightarrow> snd (AudioClientNamespace_on_message decrypt a uid msg) = a"
  by (auto simp: AudioClientNamespace_on_message_def Let_def
      split: if_splits key_entry.splits sum.splits)

text \<open>
  C5, as amended. The video handler drops a frame of another user whose key index is not
  the current one: nothing is delivered and no error is raised. A frame whose index is
  the current one is decrypted with the current key and, once decoded, delivered. In
  neither handler is a failure of the decryption caught: nothing is delivered, and the
  error leaves the handler. Whenever the audio handler raises, nothing has been written
  to the output stream.
\<close>

theorem media_receive:
  "(uid \<noteq> video_user_id s \<and> int_from_bytes_big (take 4 msg) \<noteq> fst (av_key s)
      \<longrightarrow> VideoClientNamespace_on_message decrypt decode s uid msg = (Inr (), s))
   \<and> (uid \<noteq> video_user_id s \<and> int_from_bytes_big (take 4 msg) = fst (av_key s)
        \<and> decrypt (drop 4 msg) (snd (av_key s)) = Inr plain \<and> decode plain = Inr frame
      \<longrightarrow> VideoClientNamespace_on_message decrypt decode s uid msg
            = (Inr (), s\<lparr>video := (video s)(uid \<mapsto> frame)\<rparr>))
   \<and> (uid \<noteq> video_user_id s \<and> int_from_bytes_big (take 4 msg) = fst (av_key s)
        \<and> decrypt (drop 4 msg) (snd (av_key s)) = Inl e
      \<longrightarrow> VideoClientNamespace_on_message decrypt decode s uid msg = (Inl e, s))
   \<and> (uid \<noteq> audio_user_id a \<and> int_from_bytes_big (take 4 msg) < length (audio_keys a)
        \<and> audio_keys a ! int_from_bytes_big (take 4 msg) = KeyBytes b \<and> 1 < length b
        \<and> adecrypt (drop 4 msg) (unat (b ! 1)) = Inl e
      \<longrightarrow> AudioClientNamespace_on_message adecrypt a uid msg = (Inl e, a))
   \<and> (fst (AudioClientNamespace_on_message adecrypt a uid msg) = Inl e'
      \<longrightarrow> snd (AudioClientNamespace_on_message adecrypt a uid msg) = a)"
proof (intro conjI impI)
  assume "uid \<noteq> video_user_id s \<and> int_from_bytes_big (take 4 msg) \<noteq> fst (av_key s)"
  then show "VideoClientNamespace_on_message decrypt decode s uid msg = (Inr (), s)"
    by (auto simp: VideoClientNamespace_on_message_def Let_def split: prod.splits)
next
  assume "uid \<noteq> video_user_id s \<and> int_from_bytes_big (take 4 msg) = fst (av_key s)
          \<and> decrypt (drop 4 msg) (snd (av_key s)) = Inr plain \<and> decode plain = Inr frame"
  then show "VideoClientNamespace_on_message decrypt decode s uid msg
               = (Inr (), s\<lparr>video := (video s)(uid \<mapsto> frame)\<rparr>)"
    by (auto simp: VideoClientNamespace_on_message_def Let_def split: prod.splits)
next
  assume "uid \<noteq> video_user_id s \<and> int_from_bytes_big (take 4 msg) = fst (av_key s)
          \<and> decrypt (drop 4 msg) (snd (av_key s)) = Inl e"
  then show "VideoClientNamespace_on_message decrypt decode s uid msg = (Inl e, s)"
    by (auto simp: VideoClientNamespace_on_message_def Let_def split: prod.splits)
next
  assume "uid \<noteq> audio_user_id a \<and> int_from_bytes_big (take 4 msg) < length (audio_keys a)
          \<and> audio_keys a ! int_from_bytes_big (take 4 msg) = KeyBytes b \<and> 1 < length b
          \<and> adecrypt (drop 4 msg) (unat (b ! 1)) = Inl e"
  then show "AudioClientNamespace_on_message adecrypt a uid msg = (Inl e, a)"
    by (simp add: AudioClientNamespace_on_message_def Let_def)
next
  assume "fst (AudioClientNamespace_on_message adecrypt a uid msg) = Inl e'"
  then show "snd (AudioClientNamespace_on_message adecrypt a uid msg) = a"
    by (rule audio_error_keeps_stream)
qed

lemma receiving_audio_keys:
  "audio_keys receiving_audio
     = [KeyIndex 0, KeyBytes (replicate 16 0x55), KeyIndex 1, KeyBytes (replicate 16 0x55)]"
  by code_simp

lemma receiving_video_key: "av_key receiving_video = (3, replicate 16 0x55)"
  by code_simp

lemma short_frame_fails: "aes_scheme_decrypt [1, 2, 3] (replicate 16 0x55) = Inl ValueError"
  by code_simp

lemma byte_key_fails: "aes_scheme_decrypt_byte [1, 2, 3] 85 = Inl ValueError"
  by code_simp

lemma receiving_ids:
  "video_user_id receiving_video = ''ab3f9''" "audio_user_id receiving_audio = ''ab3f9''"
  by (simp_all add: receiving_video_def receiving_audio_def)

lemma frame_index_2: "int_from_bytes_big [0, 0, 0, 2] = 2"
  by code_simp

lemma frame_index_3: "int_from_bytes_big [0, 0, 0, 3] = 3"
  by code_simp

lemma frame_index_1: "int_from_bytes_big [0, 0, 0, 1] = 1"
  by code_simp

lemma frame_index_7: "int_from_bytes_big [0, 0, 0, 7] = 7"
  by code_simp


theorem media_receive_witness:
  "VideoClientNamespace_on_message aes_scheme_decrypt raw_frame receiving_video ''k0z12''
     [0, 0, 0, 2, 1, 2, 3] = (Inr (), receiving_video)
   \<and> VideoClientNamespace_on_message debug_scheme_decrypt raw_frame receiving_video ''k0z12''
       [0, 0, 0, 3, 1, 2, 3]
       = (Inr (), receiving_video\<lparr>video := (video receiving_video)(''k0z12'' \<mapsto> [1, 2, 3])\<rparr>)
   \<and> VideoClientNamespace_on_message aes_scheme_decrypt raw_frame receiving_video ''k0z12''
       [0, 0, 0, 3, 1, 2, 3] = (Inl ValueError, receiving_video)
   \<and> AudioClientNamespace_on_message aes_scheme_decrypt_byte receiving_audio ''k0z12''
       [0, 0, 0, 1, 1, 2, 3] = (Inl ValueError, receiving_audio)
   \<and> fst (AudioClientNamespace_on_message debug_scheme_decrypt receiving_audio ''k0z12''
            [0, 0, 0, 7, 1, 2, 3]) = Inl IndexError
   \<and> snd (AudioClientNamespace_on_message debug_scheme_decrypt receiving_audio ''k0z12''
            [0, 0, 0, 7, 1, 2, 3]) = receiving_audio"
proof -
  note own = receiving_ids
  have raised: "fst (AudioClientNamespace_on_message debug_scheme_decrypt receiving_audio ''k0z12''
                  [0, 0, 0, 7, 1, 2, 3]) = Inl IndexError"
    by (simp add: AudioClientNamespace_on_message_def Let_def own frame_index_7
        receiving_audio_keys)
  note m = media_receive [where uid = "''k0z12''" and s = receiving_video and decode = raw_frame
      and a = receiving_audio and b = "replicate 16 0x55" and plain = "[1, 2, 3]"
      and frame = "[1, 2, 3]" and e = ValueError and e' = IndexError]
  from m [where msg = "[0, 0, 0, 2, 1, 2, 3]" and decrypt = aes_scheme_decrypt
      and adecrypt = debug_scheme_decrypt]
  have c1: "VideoClientNamespace_on_message aes_scheme_decrypt raw_frame receiving_video ''k0z12''
              [0, 0, 0, 2, 1, 2, 3] = (Inr (), receiving_video)"
    by (simp add: own frame_index_2 receiving_video_key)
  from m [where msg = "[0, 0, 0, 3, 1, 2, 3]" and decrypt = debug_scheme_decrypt
      and adecrypt = debug_scheme_decrypt]
  have c2: "VideoClientNamespace_on_message debug_scheme_decrypt raw_frame receiving_video ''k0z12''
              [0, 0, 0, 3, 1, 2, 3]
              = (Inr (), receiving_video\<lparr>video := (video receiving_video)(''k0z12'' \<mapsto> [1, 2, 3])\<rparr>)"
    by (simp add: own frame_index_3 receiving_video_key debug_scheme_decrypt_def
        DebugEncryption_decrypt_def raw_frame_def)
  from m [where msg = "[0, 0, 0, 3, 1, 2, 3]" and decrypt = aes_scheme_decrypt
      and adecrypt = debug_scheme_decrypt]
  have c3: "VideoClientNamespace_on_message aes_scheme_decrypt raw_frame receiving_video ''k0z12''
              [0, 0, 0, 3, 1, 2, 3] = (Inl ValueError, receiving_video)"
    by (simp add: own frame_index_3 receiving_video_key short_frame_fails)
  from m [where msg = "[0, 0, 0, 1, 1, 2, 3]" and decrypt = aes_scheme_decrypt
      and adecrypt = aes_scheme_decrypt_byte]
  have c4: "AudioClientNamespace_on_message aes_scheme_decrypt_byte receiving_audio ''k0z12''
              [0, 0, 0, 1, 1, 2, 3] = (Inl ValueError, receiving_audio)"
    by (simp add: own frame_index_1 receiving_audio_keys byte_key_fails)
  from m [where msg = "[0, 0, 0, 7, 1, 2, 3]" and decrypt = aes_scheme_decrypt
      and adecrypt = debug_scheme_decrypt] raised
  have c5: "snd (AudioClientNamespace_on_message debug_scheme_decrypt receiving_audio ''k0z12''
              [0, 0, 0, 7, 1, 2, 3]) = receiving_audio"
    by simp
  from c1 c2 c3 c4 raised c5 show ?thesis by simp
qed

text \<open>
  The claim C5 as stated fails: the audio handler raises \<open>IndexError\<close> on a frame whose key
  index is beyond the key store, and the video handler raises the cipher's error on a
  frame that does not decrypt.
\<close>

theorem media_receive_silent_drop_counterexample:
  "fst (AudioClientNamespace_on_message debug_scheme_decrypt receiving_audio ''k0z12''
          [0, 0, 0, 7, 1, 2, 3]) = Inl IndexError
   \<and> fst (VideoClientNamespace_on_message aes_scheme_decrypt raw_frame receiving_video ''k0z12''
            [0, 0, 0, 3, 1, 2, 3]) = Inl ValueError"
  by (simp add: AudioClientNamespace_on_message_def VideoClientNamespace_on_message_def Let_def
      frame_index_7 frame_index_3 receiving_audio_keys receiving_video_key short_frame_fails
      receiving_ids)

subsection \<open>Tokens\<close>

lemma zip_xor_commute:
  "map (\<lambda>(a, b). a XOR b) (zip xs ys) = map (\<lambda>(a, b). a XOR b) (zip ys (xs :: byte list))"
proof (induction xs arbitrary: ys)
  case Nil
  show ?case by simp
next
  case (Cons x xs)
  show ?case
  proof (cases ys)
    case Nil
    then show ?thesis by simp
  next
    case (Cons y ys')
    with Cons.IH [of ys'] show ?thesis by (simp add: xor.commute)
  qed
qed

text \<open>
  C4. The connection token is commutative: for all users \<open>a\<close> and \<open>b\<close>, whatever their
  ids, \<open>generate_conn_token\<close> of the pair \<open>(a, b)\<close> equals \<open>generate_conn_token\<close> of \<open>(b, a)\<close>.
\<close>

theorem conn_token_commutative:
  "SocketAPI_generate_conn_token sha256 (a, b) = SocketAPI_generate_conn_token sha256 (b, a)"
  by (simp add: SocketAPI_generate_conn_token_def zip_xor_commute [of "encode (user_id a)"])

text \<open>
  C10. For every user id, the session token the signaling channel issues on connect
  (\<open>generate_sess_token\<close>) equals the token of the registry (\<open>generate_token\<close>): both are
  the SHA-256 hex digest of the encoded id. Whatever the state of the channel and
  whatever the connection, the token a connect yields is that function of the user id
  alone.
\<close>

theorem sess_token_is_registry_token:
  "SocketAPI_generate_sess_token sha256 uid = UserManager_generate_token sha256 uid
   \<and> UserManager_generate_token sha256 uid = sha256 (encode uid)
   \<and> (SocketAPI_on_connect sha256 cls (uid, token) = (Some t, cls')
        \<longrightarrow> t = UserManager_generate_token sha256 uid)"
  by (auto simp: SocketAPI_generate_sess_token_def UserManager_generate_token_def
      SocketAPI_on_connect_def Let_def split: if_splits)

lemma live_channel_connect:
  "SocketAPI_on_connect hex_of_bytes live_channel
     (''ab3f9'', SocketAPI_generate_conn_token hex_of_bytes (user_ab3f9, user_k0z12))
   = (Some (SocketAPI_generate_sess_token hex_of_bytes ''ab3f9''),
      live_channel\<lparr>socket_users := (socket_users live_channel)
        (''ab3f9'' \<mapsto> SocketToken (SocketAPI_generate_sess_token hex_of_bytes ''ab3f9''))\<rparr>)"
  by (simp add: SocketAPI_on_connect_def SocketAPI_verify_connection_def live_channel_def Let_def)

lemma token_ab3f9: "UserManager_generate_token hex_of_bytes ''ab3f9'' = ''6162336639''"
  by code_simp

theorem sess_token_is_registry_token_witness:
  "SocketAPI_on_connect hex_of_bytes live_channel
     (''ab3f9'', SocketAPI_generate_conn_token hex_of_bytes (user_ab3f9, user_k0z12))
   = (Some (SocketAPI_generate_sess_token hex_of_bytes ''ab3f9''),
      live_channel\<lparr>socket_users := (socket_users live_channel)
        (''ab3f9'' \<mapsto> SocketToken (SocketAPI_generate_sess_token hex_of_bytes ''ab3f9''))\<rparr>)
   \<and> SocketAPI_generate_sess_token hex_of_bytes ''ab3f9''
       = UserManager_generate_token hex_of_bytes ''ab3f9''
   \<and> UserManager_generate_token hex_of_bytes ''ab3f9'' = ''6162336639''"
  using sess_token_is_registry_token
          [of hex_of_bytes "''ab3f9''" live_channel
              "SocketAPI_generate_conn_token hex_of_bytes (user_ab3f9, user_k0z12)"
              "SocketAPI_generate_sess_token hex_of_bytes ''ab3f9''"
              "live_channel\<lparr>socket_users := (socket_users live_channel)
                 (''ab3f9'' \<mapsto> SocketToken (SocketAPI_generate_sess_token hex_of_bytes ''ab3f9''))\<rparr>"]
        live_channel_connect token_ab3f9
  by simp

subsection \<open>Registration\<close>

lemma INIT_is_no_member: "ServerState_getattr ''INIT'' = Inl AttributeError"
  by (simp add: ServerState_getattr_def ServerState_members_def)

lemma request_is_no_global: "module_global ''request'' = Inl NameError"
  by (simp add: module_global_def video_chat_server_globals_def)

text \<open>
  C3 fails on the code. On a well-formed request to an empty registry, with the
  characters \<open>Ab3F9\<close> drawn for the id: \<open>UserManager.add_user\<close> returns the id alone and
  stores \<open>None\<close> for the user, so no token is issued; called with the endpoint, as the
  server calls it, it raises \<open>TypeError\<close>; the handler raises \<open>NameError\<close> at
  \<open>request.json\<close>, which the decorator lets pass, and gives no reply of status 200. On a
  registry that holds the drawn id the registration raises \<open>DuplicateUser\<close>.
\<close>

theorem create_user_gives_no_reply:
  "UserManager_add_user ([] :: Endpoint list) ''Ab3F9'' Map.empty
     = (Inr ''ab3f9'', [''ab3f9'' \<mapsto> None])
   \<and> fst (UserManager_add_user ([] :: Endpoint list) ''Ab3F9'' (user_manager two_idle_users))
       = Inl DuplicateUser
   \<and> fst (VideoChatServer_add_user empty_registry \<lparr>ip = ''10.0.0.3'', port = 4000, route = None\<rparr>
            ''Ab3F9'') = Inl TypeError
   \<and> create_user_route empty_registry
         [''api_endpoint'' \<mapsto> JArray [JString ''10.0.0.3'', JNumber 4000]] ''Ab3F9''
       = (Inl NameError, empty_registry)"
proof -
  have uid: "UserManager_generate_user_id ''Ab3F9'' = ''ab3f9''"
    by code_simp
  have a: "UserManager_add_user ([] :: Endpoint list) ''Ab3F9'' Map.empty
             = (Inr ''ab3f9'', [''ab3f9'' \<mapsto> None])"
    by (simp add: UserManager_add_user_def uid DictUserStorage_add_user_def Let_def)
  have b: "fst (UserManager_add_user ([] :: Endpoint list) ''Ab3F9'' (user_manager two_idle_users))
             = Inl DuplicateUser"
    by (simp add: UserManager_add_user_def uid DictUserStorage_add_user_def two_idle_users_def Let_def)
  have c: "fst (VideoChatServer_add_user empty_registry
                  \<lparr>ip = ''10.0.0.3'', port = 4000, route = None\<rparr> ''Ab3F9'') = Inl TypeError"
    by (simp add: VideoChatServer_add_user_def UserManager_add_user_def)
  have d: "create_user_route empty_registry
             [''api_endpoint'' \<mapsto> JArray [JString ''10.0.0.3'', JNumber 4000]] ''Ab3F9''
           = (Inl NameError, empty_registry)"
    by (simp add: create_user_route_def ServerAPI_create_user_def request_is_no_global
        ServerAPI_HandleExceptions_def)
  from a b c d show ?thesis by blast
qed

subsection \<open>Brokering a connection\<close>

lemma get_user_by_id_is_no_method: "UserManager_lookup_method ''get_user_by_id'' = Inl AttributeError"
  by (simp add: UserManager_lookup_method_def UserManager_lookup_methods_def)

lemma get_user_by_id_raises: "VideoChatServer_get_user_by_id srv uid = Inl AttributeError"
  by (simp add: VideoChatServer_get_user_by_id_def get_user_by_id_is_no_method)

text \<open>
  For two different ids the broker raises \<open>AttributeError\<close> at the lookup of the
  requester, on every registry, and leaves the server as it was.
\<close>

lemma handle_peer_connection_lookup_raises:
  "uid \<noteq> peer_id \<Longrightarrow>
   VideoChatServer_handle_peer_connection sha256 post srv uid peer_id = (Inl AttributeError, srv)"
  by (simp add: VideoChatServer_handle_peer_connection_def get_user_by_id_raises)

lemma start_websocket_keeps_registry:
  "user_manager (snd (VideoChatServer_start_websocket sha256 srv users)) = user_manager srv"
  by (simp add: VideoChatServer_start_websocket_def split: option.splits prod.splits sum.splits)

lemma handle_peer_connection_keeps_registry:
  "user_manager (snd (VideoChatServer_handle_peer_connection sha256 post srv uid peer_id))
     = user_manager srv"
  by (cases "uid = peer_id")
     (simp_all add: handle_peer_connection_lookup_raises,
      simp add: VideoChatServer_handle_peer_connection_def)

text \<open>
  Past the lookups the broker would not get further than \<open>start_websocket\<close>, which
  raises on every input: \<open>ServerError\<close> without an endpoint or on a channel that is
  \<open>LIVE\<close> or \<open>OPEN\<close>, and \<open>AttributeError\<close> at \<open>ServerState.INIT\<close> otherwise.
\<close>

lemma start_websocket_raises:
  "fst (VideoChatServer_start_websocket sha256 srv users) = Inl ServerError
   \<or> fst (VideoChatServer_start_websocket sha256 srv users) = Inl AttributeError"
  by (simp add: VideoChatServer_start_websocket_def SocketAPI_init_def INIT_is_no_member Let_def
      split: option.splits)

lemma handle_peer_connection_raises:
  "\<exists>e. fst (VideoChatServer_handle_peer_connection sha256 post srv uid peer_id) = Inl e
        \<and> e \<noteq> BadGateway \<and> e \<noteq> InvalidState"
  by (cases "uid = peer_id")
     (simp_all add: handle_peer_connection_lookup_raises,
      simp add: VideoChatServer_handle_peer_connection_def)

lemma registered_pair_registry:
  "user_manager registered_pair = [''ab3f9'' \<mapsto> None, ''k0z12'' \<mapsto> None]"
proof -
  have a: "UserManager_generate_user_id ''ab3f9'' = ''ab3f9''" by code_simp
  have k: "UserManager_generate_user_id ''k0z12'' = ''k0z12''" by code_simp
  show ?thesis
    by (simp add: registered_pair_def empty_registry_def UserManager_add_user_def
        DictUserStorage_add_user_def a k Let_def)
qed

lemma set_user_state_on_registered_pair:
  "UserManager_set_user_state (user_manager registered_pair) ''ab3f9'' CONNECTING (Some ''k0z12'')
     = (Inl AttributeError, user_manager registered_pair)"
  by (simp add: UserManager_set_user_state_def DictUserStorage_get_user_def
      registered_pair_registry)

text \<open>
  C1 fails on the code. On the registry the code builds for two registered users, with a
  peer that would accept, \<open>handle_peer_connection\<close> returns no endpoint and no token and
  makes no transition: it raises \<open>AttributeError\<close> at the lookup of the requester
  (\<open>UserManager\<close> has no method \<open>get_user_by_id\<close>) and leaves the server as it was. Also
  on a registry that holds a record for each user, one of them not \<open>IDLE\<close>, the error is
  that \<open>AttributeError\<close> and not \<open>InvalidState\<close>.
\<close>

theorem handle_peer_connection_never_brokers:
  "user_manager registered_pair = [''ab3f9'' \<mapsto> None, ''k0z12'' \<mapsto> None]
   \<and> UserManager_lookup_method ''get_user_by_id'' = Inl AttributeError
   \<and> VideoChatServer_handle_peer_connection hex_of_bytes peer_accepts registered_pair
         ''ab3f9'' ''k0z12'' = (Inl AttributeError, registered_pair)
   \<and> user_state (user_k0z12\<lparr>user_state := CONNECTED, peer := Some ''zz9zz''\<rparr>) \<noteq> IDLE
   \<and> fst (VideoChatServer_handle_peer_connection hex_of_bytes peer_accepts
        (two_idle_users\<lparr>user_manager := (user_manager two_idle_users)
          (''k0z12'' \<mapsto> Some (user_k0z12\<lparr>user_state := CONNECTED, peer := Some ''zz9zz''\<rparr>))\<rparr>)
        ''ab3f9'' ''k0z12'') = Inl AttributeError"
proof -
  have ne: "''ab3f9'' \<noteq> ''k0z12''" by simp
  show ?thesis
    by (simp add: registered_pair_registry get_user_by_id_is_no_method
        handle_peer_connection_lookup_raises [OF ne])
qed

text \<open>
  C2 fails on the code. With two idle users and the channel not yet started, the request
  fails before the peer is contacted: the lookup of the requester raises
  \<open>AttributeError\<close>, and past the lookups \<open>SocketAPI.init\<close> raises \<open>AttributeError\<close> at
  \<open>ServerState.INIT\<close>. Whether the peer is unreachable or refuses, the error is not
  \<open>BadGateway\<close>.
\<close>

theorem handle_peer_connection_no_BadGateway:
  "ServerState_getattr ''INIT'' = Inl AttributeError
   \<and> fst (VideoChatServer_handle_peer_connection hex_of_bytes peer_unreachable two_idle_users
            ''ab3f9'' ''k0z12'') = Inl AttributeError
   \<and> fst (VideoChatServer_handle_peer_connection hex_of_bytes peer_refuses two_idle_users
            ''ab3f9'' ''k0z12'') = Inl AttributeError"
proof -
  have ne: "''ab3f9'' \<noteq> ''k0z12''" by simp
  show ?thesis
    by (simp add: INIT_is_no_member handle_peer_connection_lookup_raises [OF ne])
qed

subsection \<open>XOR round trip\<close>

lemma xor_zip_twice:
  "length p \<le> length k \<Longrightarrow>
   map (\<lambda>(a, b). a \<noteq> b) (zip (map (\<lambda>(a, b). a \<noteq> b) (zip p k)) k) = p"
proof (induction p arbitrary: k)
  case Nil
  show ?case by simp
next
  case (Cons x xs)
  then obtain y ys where k: "k = y # ys" by (cases k) auto
  with Cons show ?case by auto
qed

text \<open>
  C9. For bit arrays \<open>p\<close> and \<open>k\<close> with \<open>len(k) >= len(p)\<close>, decrypting the XOR
  encryption of \<open>p\<close> under \<open>k\<close> with \<open>k\<close> gives \<open>p\<close> back, and encrypt and decrypt are
  the same operation.
\<close>

theorem XOR_round_trip:
  "length p \<le> length k \<Longrightarrow>
   XOREncryption_decrypt (XOREncryption_encrypt p k) k = p
   \<and> XOREncryption_decrypt = XOREncryption_encrypt"
proof
  assume "length p \<le> length k"
  then show "XOREncryption_decrypt (XOREncryption_encrypt p k) k = p"
    unfolding XOREncryption_decrypt_def XOREncryption_encrypt_def by (rule xor_zip_twice)
next
  show "XOREncryption_decrypt = XOREncryption_encrypt"
    unfolding XOREncryption_decrypt_def XOREncryption_encrypt_def by (rule refl)
qed

theorem XOR_round_trip_witness:
  "length [True, False, True] \<le> length [True, True, False, False]
   \<and> XOREncryption_decrypt (XOREncryption_encrypt [True, False, True] [True, True, False, False])
       [True, True, False, False] = [True, False, True]
   \<and> XOREncryption_encrypt [True, False, True] [True, True, False, False] = [False, True, True]"
  using XOR_round_trip [of "[True, False, True]" "[True, True, False, False]"]
  by (simp add: XOREncryption_encrypt_def)

end
